theory Spec2Isabelle
  imports Main "HOL-Library.Word"
begin

section \<open>Values of the worker\<close>

text \<open>
  The worker of \<^verbatim>\<open>src/index.js\<close> is a \<^verbatim>\<open>fetch\<close> function with three handlers.
  This theory embeds the router, the handlers and the JavaScript operations they rely
  on (truthiness, \<^verbatim>\<open>||\<close>, template literals, property lookup with the prototype
  chain, \<^verbatim>\<open>slice\<close>, \<^verbatim>\<open>map\<close>, \<^verbatim>\<open>join\<close>, \<^verbatim>\<open>try\<close>/\<^verbatim>\<open>catch\<close>).

  Numbers are opaque: the type variable \<open>'n\<close> stands for a JavaScript number, and the
  two operations the worker can apply to one (conversion to a string and the falsy
  test) are fields of the environment.
\<close>

type_synonym bytes = "8 word list"

datatype 'n json =
    JNull
  | JBool bool
  | JNum 'n
  | JStr string
  | JArr "'n json list"
  | JObj "(string \<times> 'n json) list"

text \<open>
  A thrown value. What the runtime throws is an \<^verbatim>\<open>Error\<close> object, with a \<^verbatim>\<open>name\<close> and a
  \<^verbatim>\<open>message\<close>, and a failure of the gateway surfaces as an error with a message too. The
  engine raises a \<^verbatim>\<open>TypeError\<close> at three places of the worker; the wording of its
  message belongs to the engine, which the environment stands for.
\<close>

datatype error = Error (error_name: string) (message: string)

datatype type_error =
    NotAFunction string
  | CannotDestructure string
  | CannotConvertToPrimitive

text \<open>An entry of a \<^verbatim>\<open>FormData\<close> is a string or a \<^verbatim>\<open>File\<close>.\<close>

datatype form_value = FieldText string | FieldFile bytes

type_synonym form_data = "(string \<times> form_value) list"

text \<open>\<^verbatim>\<open>formData.get(name)\<close>: the first entry of that name, or \<^verbatim>\<open>null\<close>.\<close>

definition formData_get :: "form_data \<Rightarrow> string \<Rightarrow> form_value option" where
  "formData_get fd k = map_of fd k"

text \<open>
  The request, as far as the worker reads it: \<^verbatim>\<open>request.method\<close>, the path name
  \<^verbatim>\<open>new URL(request.url).pathname\<close>, and
  what \<^verbatim>\<open>await request.formData()\<close> and \<^verbatim>\<open>await request.json()\<close> yield (a thrown
  error when the body does not parse).
\<close>

record 'n request =
  request_method :: string
  url_pathname :: string
  request_formData :: "error + form_data"
  request_json :: "error + 'n json"

type_synonym headers = "(string \<times> string) list"

datatype 'n body = NullBody | TextBody string | JsonBody "'n json" | BytesBody bytes

record 'n response =
  status :: nat
  headers :: headers
  body :: "'n body"

subsection \<open>The inference gateway\<close>

text \<open>
  \<^verbatim>\<open>env.AI.run(model, input)\<close> is an external service. Each of the three models has its
  own input and output shape: the classifier returns a list of items with a \<^verbatim>\<open>label\<close> and
  a \<^verbatim>\<open>score\<close>, the text model an object whose \<^verbatim>\<open>response\<close> is a string or missing, the
  image model an object whose \<^verbatim>\<open>image\<close> holds the bytes. A call returns the output or
  throws. No handler calls the same model twice, so a function per model covers every
  behaviour of the service within one request.

  The environment also holds what else comes from outside the source text: the value
  of \<^verbatim>\<open>Date.now()\<close> during the request, and the engine's treatment of numbers and its
  error messages.
\<close>

datatype 'n item = Item (label: string) (score: 'n)

datatype ai_input =
    ImageInput bytes
  | MessagesInput "(string \<times> string) list" nat
  | PromptInput string nat

type_synonym ai_call = "string \<times> ai_input"

record 'n env =
  resnet_50 :: "bytes \<Rightarrow> error + 'n item list"
  phi_2 :: "(string \<times> string) list \<Rightarrow> nat \<Rightarrow> error + string option"
  stable_diffusion :: "string \<Rightarrow> nat \<Rightarrow> error + bytes"
  Date_now :: int
  Number_toString :: "'n \<Rightarrow> string"
  Number_falsy :: "'n \<Rightarrow> bool"
  TypeError_message :: "type_error \<Rightarrow> string"

definition TypeError :: "'n env \<Rightarrow> type_error \<Rightarrow> error" where
  "TypeError env t = Error ''TypeError'' (TypeError_message env t)"

subsection \<open>Effects: thrown errors and the log of gateway calls\<close>

type_synonym 'a effect = "(error + 'a) \<times> ai_call list"

definition ret :: "'a \<Rightarrow> 'a effect" where
  "ret x = (Inr x, [])"

definition await :: "error + 'a \<Rightarrow> 'a effect" where
  "await r = (r, [])"

definition bind :: "'a effect \<Rightarrow> ('a \<Rightarrow> 'b effect) \<Rightarrow> 'b effect" where
  "bind m f =
     (case m of
        (Inl e, cs) \<Rightarrow> (Inl e, cs)
      | (Inr x, cs) \<Rightarrow> (case f x of (r, cs') \<Rightarrow> (r, cs @ cs')))"

text \<open>\<^verbatim>\<open>try { ... } catch (error) { return h(error) }\<close>\<close>

definition catch :: "'a effect \<Rightarrow> (error \<Rightarrow> 'a) \<Rightarrow> 'a \<times> ai_call list" where
  "catch m h = (case m of (Inl e, cs) \<Rightarrow> (h e, cs) | (Inr x, cs) \<Rightarrow> (x, cs))"

definition AI_run_resnet_50 :: "'n env \<Rightarrow> bytes \<Rightarrow> 'n item list effect" where
  "AI_run_resnet_50 env imageUint8 =
     (resnet_50 env imageUint8, [(''@cf/microsoft/resnet-50'', ImageInput imageUint8)])"

definition AI_run_phi_2 :: "'n env \<Rightarrow> (string \<times> string) list \<Rightarrow> nat \<Rightarrow> string option effect" where
  "AI_run_phi_2 env messages max_tokens =
     (phi_2 env messages max_tokens, [(''@cf/microsoft/phi-2'', MessagesInput messages max_tokens)])"

definition AI_run_stable_diffusion :: "'n env \<Rightarrow> string \<Rightarrow> nat \<Rightarrow> bytes effect" where
  "AI_run_stable_diffusion env prompt num_steps =
     (stable_diffusion env prompt num_steps,
      [(''@cf/stabilityai/stable-diffusion-xl-base-1.0'', PromptInput prompt num_steps)])"

subsection \<open>Strings\<close>

text \<open>\<^verbatim>\<open>Array.prototype.join\<close> on an array of strings.\<close>

fun join :: "string \<Rightarrow> string list \<Rightarrow> string" where
  "join sep [] = []"
| "join sep [x] = x"
| "join sep (x # y # ys) = x @ sep @ join sep (y # ys)"

text \<open>The decimal digits of an integer, as \<^verbatim>\<open>String\<close> gives them for \<^verbatim>\<open>Date.now()\<close>.\<close>

definition digit :: "nat \<Rightarrow> char" where
  "digit d = ''0123456789'' ! d"

fun show_nat :: "nat \<Rightarrow> string" where
  "show_nat n = (if n < 10 then [digit n] else show_nat (n div 10) @ [digit (n mod 10)])"

definition show_int :: "int \<Rightarrow> string" where
  "show_int i = (if i < 0 then CHR ''-'' # show_nat (nat (- i)) else show_nat (nat i))"

subsection \<open>Coercions\<close>

text \<open>
  Truthiness of a value that came out of \<^verbatim>\<open>JSON.parse\<close>; \<open>None\<close> is \<^verbatim>\<open>undefined\<close>.
\<close>

definition truthy :: "'n env \<Rightarrow> 'n json option \<Rightarrow> bool" where
  "truthy env v =
     (case v of
        None \<Rightarrow> False
      | Some JNull \<Rightarrow> False
      | Some (JBool b) \<Rightarrow> b
      | Some (JNum n) \<Rightarrow> \<not> Number_falsy env n
      | Some (JStr s) \<Rightarrow> s \<noteq> []
      | Some (JArr xs) \<Rightarrow> True
      | Some (JObj fs) \<Rightarrow> True)"

fun sequence :: "(error + 'a) list \<Rightarrow> error + 'a list" where
  "sequence [] = Inr []"
| "sequence (Inl e # rs) = Inl e"
| "sequence (Inr x # rs) = (case sequence rs of Inl e \<Rightarrow> Inl e | Inr xs \<Rightarrow> Inr (x # xs))"

text \<open>
  \<^verbatim>\<open>ToString\<close>, which a template literal and a computed property key apply. An array
  joins its elements with a comma, \<^verbatim>\<open>null\<close> elements giving the empty string. A parsed
  object has no callable property of its own: it is \<^verbatim>\<open>[object Object]\<close> through
  \<^verbatim>\<open>Object.prototype.toString\<close>, unless an own \<^verbatim>\<open>toString\<close> property hides that
  method, and then the conversion throws.
\<close>

fun ToString :: "'n env \<Rightarrow> 'n json \<Rightarrow> error + string" where
  "ToString env JNull = Inr ''null''"
| "ToString env (JBool b) = Inr (if b then ''true'' else ''false'')"
| "ToString env (JNum n) = Inr (Number_toString env n)"
| "ToString env (JStr s) = Inr s"
| "ToString env (JArr xs) =
     (case sequence (map (\<lambda>x. if x = JNull then Inr [] else ToString env x) xs) of
        Inl e \<Rightarrow> Inl e
      | Inr ss \<Rightarrow> Inr (join '','' ss))"
| "ToString env (JObj fs) =
     (if ''toString'' \<in> set (map fst fs) then Inl (TypeError env CannotConvertToPrimitive)
      else Inr ''[object Object]'')"

text \<open>\<^verbatim>\<open>ToString\<close> of a value that may be \<^verbatim>\<open>undefined\<close>.\<close>

definition ToString_opt :: "'n env \<Rightarrow> 'n json option \<Rightarrow> error + string" where
  "ToString_opt env v = (case v of None \<Rightarrow> Inr ''undefined'' | Some j \<Rightarrow> ToString env j)"

text \<open>The same for an entry of a form: a \<^verbatim>\<open>File\<close> is an object, hence truthy.\<close>

definition form_truthy :: "form_value option \<Rightarrow> bool" where
  "form_truthy v =
     (case v of None \<Rightarrow> False | Some (FieldText s) \<Rightarrow> s \<noteq> [] | Some (FieldFile b) \<Rightarrow> True)"

definition form_ToString :: "form_value \<Rightarrow> string" where
  "form_ToString v = (case v of FieldText s \<Rightarrow> s | FieldFile b \<Rightarrow> ''[object File]'')"

text \<open>\<^verbatim>\<open>formData.get(name) || dflt\<close>\<close>

definition form_or :: "form_value option \<Rightarrow> string \<Rightarrow> form_value" where
  "form_or v dflt = (case v of Some x \<Rightarrow> (if form_truthy v then x else FieldText dflt) | None \<Rightarrow> FieldText dflt)"

text \<open>\<^verbatim>\<open>await imageFile.arrayBuffer()\<close> followed by \<^verbatim>\<open>new Uint8Array\<close>: only a \<^verbatim>\<open>File\<close> has the method.\<close>

definition arrayBuffer :: "'n env \<Rightarrow> form_value option \<Rightarrow> error + bytes" where
  "arrayBuffer env imageFile =
     (case imageFile of
        Some (FieldFile b) \<Rightarrow> Inr b
      | Some (FieldText s) \<Rightarrow> Inl (TypeError env (NotAFunction ''imageFile.arrayBuffer''))
      | None \<Rightarrow> Inl (TypeError env (NotAFunction ''imageFile.arrayBuffer'')))"

text \<open>\<^verbatim>\<open>descriptionResponse.response || fallback\<close>\<close>

definition string_or :: "string option \<Rightarrow> string \<Rightarrow> string" where
  "string_or r fallback = (case r of None \<Rightarrow> fallback | Some s \<Rightarrow> (if s = [] then fallback else s))"

subsection \<open>The style table\<close>

text \<open>
  \<^verbatim>\<open>stylePrompts\<close> is an object literal, so \<^verbatim>\<open>stylePrompts[style]\<close> finds the four
  own properties and, behind them, the properties of \<^verbatim>\<open>Object.prototype\<close>: eleven
  built-in functions and the accessor \<^verbatim>\<open>__proto__\<close>, which yields the prototype object.
\<close>

datatype property = Undefined | String string | NativeFunction string | ObjectPrototype

definition Object_prototype :: "string \<Rightarrow> property" where
  "Object_prototype k =
     (if k = ''__proto__'' then ObjectPrototype
      else if k = ''constructor'' then NativeFunction ''Object''
      else if k \<in> set [''__defineGetter__'', ''__defineSetter__'', ''__lookupGetter__'',
                        ''__lookupSetter__'', ''hasOwnProperty'', ''isPrototypeOf'',
                        ''propertyIsEnumerable'', ''toLocaleString'', ''toString'', ''valueOf'']
      then NativeFunction k
      else Undefined)"

definition get_property :: "(string \<times> string) list \<Rightarrow> string \<Rightarrow> property" where
  "get_property obj k = (case map_of obj k of Some s \<Rightarrow> String s | None \<Rightarrow> Object_prototype k)"

definition property_truthy :: "property \<Rightarrow> bool" where
  "property_truthy v = (case v of Undefined \<Rightarrow> False | String s \<Rightarrow> s \<noteq> [] | _ \<Rightarrow> True)"

definition property_or :: "property \<Rightarrow> property \<Rightarrow> property" where
  "property_or a b = (if property_truthy a then a else b)"

definition property_ToString :: "property \<Rightarrow> string" where
  "property_ToString v =
     (case v of
        Undefined \<Rightarrow> ''undefined''
      | String s \<Rightarrow> s
      | NativeFunction f \<Rightarrow> ''function '' @ f @ ''() { [native code] }''
      | ObjectPrototype \<Rightarrow> ''[object Object]'')"

text \<open>The two tables, of \<^verbatim>\<open>generateImage\<close> and of \<^verbatim>\<open>transformImage\<close>.\<close>

definition stylePrompts_generate :: "string \<Rightarrow> (string \<times> string) list" where
  "stylePrompts_generate prompt =
     [(''realistic'', ''photorealistic '' @ prompt @ '', high detail, 4k''),
      (''artistic'', ''artistic painting of '' @ prompt @ '', creative, masterpiece''),
      (''cartoon'', ''cartoon style '' @ prompt @ '', animated, colorful''),
      (''abstract'', ''abstract interpretation of '' @ prompt @ '', modern art'')]"

definition stylePrompts_transform :: "string \<Rightarrow> (string \<times> string) list" where
  "stylePrompts_transform finalPrompt =
     [(''realistic'', ''photorealistic '' @ finalPrompt @ '', high detail''),
      (''artistic'', ''artistic '' @ finalPrompt @ '', painting style''),
      (''cartoon'', ''cartoon '' @ finalPrompt @ '', animated style''),
      (''abstract'', ''abstract '' @ finalPrompt @ '', modern art'')]"

text \<open>\<^verbatim>\<open>stylePrompts[style] || stylePrompts.realistic\<close>, for a key already a string.\<close>

definition select_style :: "(string \<times> string) list \<Rightarrow> string \<Rightarrow> property" where
  "select_style stylePrompts style =
     property_or (get_property stylePrompts style) (get_property stylePrompts ''realistic'')"

text \<open>The prompt sent to the image model: \<^verbatim>\<open>`${finalPrompt} timestamp:${Date.now()}`\<close>.\<close>

definition with_timestamp :: "'n env \<Rightarrow> property \<Rightarrow> string" where
  "with_timestamp env finalPrompt =
     property_ToString finalPrompt @ '' timestamp:'' @ show_int (Date_now env)"

subsection \<open>Responses\<close>

text \<open>\<^verbatim>\<open>{ ...headers, k: v }\<close>: the value of an existing key is replaced, a new key comes last.\<close>

fun spread :: "headers \<Rightarrow> string \<Rightarrow> string \<Rightarrow> headers" where
  "spread [] k v = [(k, v)]"
| "spread (h # hs) k v = (if fst h = k then (k, v) # hs else h # spread hs k v)"

definition to_lower :: "char \<Rightarrow> char" where
  "to_lower c =
     (case map_of (zip ''ABCDEFGHIJKLMNOPQRSTUVWXYZ'' ''abcdefghijklmnopqrstuvwxyz'') c of
        Some l \<Rightarrow> l
      | None \<Rightarrow> c)"

definition has_header :: "headers \<Rightarrow> string \<Rightarrow> bool" where
  "has_header hs k = (map to_lower k \<in> set (map (\<lambda>h. map to_lower (fst h)) hs))"

text \<open>\<^verbatim>\<open>new Response(body, { headers })\<close>: the status is 200.\<close>

definition Response :: "'n body \<Rightarrow> headers \<Rightarrow> 'n response" where
  "Response b hs = \<lparr>status = 200, headers = hs, body = b\<rparr>"

text \<open>
  \<^verbatim>\<open>Response.json(data, { status, headers })\<close>: the body is the serialised data, and the
  content type is added when the given headers have none. The serialisation itself is
  not modelled: a JSON body is kept as the value it serialises.
\<close>

definition Response_json :: "'n json \<Rightarrow> nat \<Rightarrow> headers \<Rightarrow> 'n response" where
  "Response_json data st hs =
     \<lparr>status = st,
      headers = (if has_header hs ''content-type'' then hs
                 else hs @ [(''content-type'', ''application/json'')]),
      body = JsonBody data\<rparr>"

definition analysis_json :: "'n item list \<Rightarrow> 'n json" where
  "analysis_json analysis =
     JArr (map (\<lambda>item. JObj [(''label'', JStr (label item)), (''score'', JNum (score item))]) analysis)"

section \<open>The handlers\<close>

text \<open>\<^verbatim>\<open>analysis.slice(0, 3).map(item => item.label).join(', ')\<close>\<close>

definition topLabels :: "'n item list \<Rightarrow> string" where
  "topLabels analysis = join '', '' (map label (take 3 analysis))"

subsection \<open>analyzeImage\<close>

definition analyze_content :: "string \<Rightarrow> string" where
  "analyze_content labels =
     ''Describe this image in detail for AI image generation. The image contains: ''
     @ labels
     @ ''. Provide a comprehensive description including objects, colors, style, lighting, and composition.''"

definition analyzeImage_try :: "'n env \<Rightarrow> 'n request \<Rightarrow> headers \<Rightarrow> 'n response effect" where
  "analyzeImage_try env request hdrs =
     bind (await (request_formData request)) (\<lambda>formData.
       let imageFile = formData_get formData ''image'' in
       if \<not> form_truthy imageFile
       then ret (Response_json (JObj [(''error'', JStr ''No image provided'')]) 400 hdrs)
       else
         bind (await (arrayBuffer env imageFile)) (\<lambda>imageUint8.
         bind (AI_run_resnet_50 env imageUint8) (\<lambda>analysis.
           let labels = topLabels analysis in
           bind (AI_run_phi_2 env [(''user'', analyze_content labels)] 200) (\<lambda>descriptionResponse.
             let description = string_or descriptionResponse (''An image featuring '' @ labels) in
             ret (Response_json
                   (JObj [(''analysis'', analysis_json analysis),
                          (''description'', JStr description),
                          (''prompt_suggestion'', JStr (''Create a new image: '' @ description))])
                   200 hdrs)))))"

definition analyzeImage :: "'n env \<Rightarrow> 'n request \<Rightarrow> headers \<Rightarrow> 'n response \<times> ai_call list" where
  "analyzeImage env request hdrs =
     catch (analyzeImage_try env request hdrs) (\<lambda>error.
       Response_json
         (JObj [(''error'', JStr ''Image analysis failed''), (''details'', JStr (message error))])
         500 hdrs)"

subsection \<open>generateImage\<close>

text \<open>
  \<^verbatim>\<open>const { prompt, style = "realistic" } = await request.json()\<close>: \<^verbatim>\<open>null\<close> cannot be
  destructured; a parsed object gives its own properties; any other value (a string, a
  number, a boolean, an array) has neither property. The default applies to a style
  that is \<^verbatim>\<open>undefined\<close>.
\<close>

definition destructure :: "'n env \<Rightarrow> 'n json \<Rightarrow> error + ('n json option \<times> 'n json)" where
  "destructure env b =
     (case b of
        JNull \<Rightarrow> Inl (TypeError env (CannotDestructure ''prompt''))
      | JObj fs \<Rightarrow>
          Inr (map_of fs ''prompt'',
               (case map_of fs ''style'' of None \<Rightarrow> JStr ''realistic'' | Some v \<Rightarrow> v))
      | _ \<Rightarrow> Inr (None, JStr ''realistic''))"

definition generateImage_try :: "'n env \<Rightarrow> 'n request \<Rightarrow> headers \<Rightarrow> 'n response effect" where
  "generateImage_try env request hdrs =
     bind (await (request_json request)) (\<lambda>parsed.
     bind (await (destructure env parsed)) (\<lambda>(prompt, style).
       if \<not> truthy env prompt
       then ret (Response_json (JObj [(''error'', JStr ''Prompt is required'')]) 400 hdrs)
       else
         bind (await (ToString_opt env prompt)) (\<lambda>prompt_text.
           let stylePrompts = stylePrompts_generate prompt_text in
           bind (await (ToString env style)) (\<lambda>style_key.
             let finalPrompt = select_style stylePrompts style_key in
             bind (AI_run_stable_diffusion env (with_timestamp env finalPrompt) 20) (\<lambda>response_image.
               ret (Response (BytesBody response_image) (spread hdrs ''Content-Type'' ''image/png'')))))))"

definition generateImage :: "'n env \<Rightarrow> 'n request \<Rightarrow> headers \<Rightarrow> 'n response \<times> ai_call list" where
  "generateImage env request hdrs =
     catch (generateImage_try env request hdrs) (\<lambda>error.
       Response_json
         (JObj [(''error'', JStr ''Image generation failed''), (''details'', JStr (message error))])
         500 hdrs)"

subsection \<open>transformImage\<close>

text \<open>\<^verbatim>\<open>customPrompt ? `${baseDescription}. ${customPrompt}` : baseDescription\<close>\<close>

definition finalPrompt_of :: "string \<Rightarrow> form_value \<Rightarrow> string" where
  "finalPrompt_of baseDescription customPrompt =
     (if form_truthy (Some customPrompt)
      then baseDescription @ ''. '' @ form_ToString customPrompt
      else baseDescription)"

definition transform_content :: "string \<Rightarrow> form_value \<Rightarrow> string" where
  "transform_content labels customPrompt =
     ''Describe this image for AI generation. Content: '' @ labels @ ''. ''
     @ (if form_truthy (Some customPrompt) then ''Also: '' @ form_ToString customPrompt else [])"

definition transformImage_try :: "'n env \<Rightarrow> 'n request \<Rightarrow> headers \<Rightarrow> 'n response effect" where
  "transformImage_try env request hdrs =
     bind (await (request_formData request)) (\<lambda>formData.
       let imageFile = formData_get formData ''image'';
           customPrompt = form_or (formData_get formData ''prompt'') [];
           style = form_or (formData_get formData ''style'') ''realistic''
       in
       if \<not> form_truthy imageFile
       then ret (Response_json (JObj [(''error'', JStr ''No image provided'')]) 400 hdrs)
       else
         bind (await (arrayBuffer env imageFile)) (\<lambda>imageUint8.
         bind (AI_run_resnet_50 env imageUint8) (\<lambda>analysis.
           let labels = topLabels analysis in
           bind (AI_run_phi_2 env [(''user'', transform_content labels customPrompt)] 150) (\<lambda>descriptionResponse.
             let baseDescription = string_or descriptionResponse (''An image with '' @ labels);
                 finalPrompt = finalPrompt_of baseDescription customPrompt;
                 stylePrompts = stylePrompts_transform finalPrompt;
                 styledPrompt = select_style stylePrompts (form_ToString style)
             in
             bind (AI_run_stable_diffusion env (with_timestamp env styledPrompt) 20) (\<lambda>imageResponse_image.
               ret (Response (BytesBody imageResponse_image) (spread hdrs ''Content-Type'' ''image/png'')))))))"

definition transformImage :: "'n env \<Rightarrow> 'n request \<Rightarrow> headers \<Rightarrow> 'n response \<times> ai_call list" where
  "transformImage env request hdrs =
     catch (transformImage_try env request hdrs) (\<lambda>error.
       Response_json
         (JObj [(''error'', JStr ''Image transformation failed''), (''details'', JStr (message error))])
         500 hdrs)"

section \<open>The router\<close>

definition corsHeaders :: headers where
  "corsHeaders =
     [(''Access-Control-Allow-Origin'', ''*''),
      (''Access-Control-Allow-Methods'', ''GET, POST, OPTIONS''),
      (''Access-Control-Allow-Headers'', ''Content-Type'')]"

definition capabilities :: "'n json" where
  "capabilities =
     JObj [(''message'', JStr ''AI Image Transformer API''),
           (''endpoints'',
            JArr [JStr ''GET  / - HTML UI'',
                  JStr ''POST /api/analyze-image - Analyze image to text'',
                  JStr ''POST /api/generate-image - Generate image from text'',
                  JStr ''POST /api/transform-image - Complete workflow''])]"

text \<open>
  The text that \<^verbatim>\<open>getHTML()\<close> returns is a constant page of some four hundred lines; the
  router takes it as the argument \<open>getHTML\<close>.
\<close>

definition fetch :: "string \<Rightarrow> 'n env \<Rightarrow> 'n request \<Rightarrow> 'n response \<times> ai_call list" where
  "fetch getHTML env request =
     (if request_method request = ''OPTIONS'' then (Response NullBody corsHeaders, [])
      else if url_pathname request = ''/'' \<and> request_method request = ''GET''
      then (Response (TextBody getHTML) (spread corsHeaders ''Content-Type'' ''text/html''), [])
      else if url_pathname request = ''/api/analyze-image'' \<and> request_method request = ''POST''
      then analyzeImage env request corsHeaders
      else if url_pathname request = ''/api/generate-image'' \<and> request_method request = ''POST''
      then generateImage env request corsHeaders
      else if url_pathname request = ''/api/transform-image'' \<and> request_method request = ''POST''
      then transformImage env request corsHeaders
      else (Response (JsonBody capabilities) (spread corsHeaders ''Content-Type'' ''application/json''), []))"

section \<open>Sample inputs\<close>

text \<open>
  An environment whose three models answer, three in which one model throws, and
  requests of the two body kinds. A request with a form body fails to parse
  as JSON, and the other way round.
\<close>

definition example_env :: "int env" where
  "example_env =
     \<lparr>resnet_50 = (\<lambda>b. Inr [Item ''cat'' 9, Item ''dog'' 5, Item ''tree'' 3, Item ''sky'' 1]),
      phi_2 = (\<lambda>m t. Inr (Some ''A forest scene'')),
      stable_diffusion = (\<lambda>p n. Inr [137, 80, 78, 71]),
      Date_now = 1700000000000,
      Number_toString = show_int,
      Number_falsy = (\<lambda>n. n = 0),
      TypeError_message = (\<lambda>t. ''type error'')\<rparr>"

definition classifier_down :: "int env" where
  "classifier_down =
     example_env \<lparr>resnet_50 := (\<lambda>b. Inl (Error ''Error'' ''classifier unavailable''))\<rparr>"

definition text_model_down :: "int env" where
  "text_model_down =
     example_env \<lparr>phi_2 := (\<lambda>m t. Inl (Error ''Error'' ''text model unavailable''))\<rparr>"

definition image_model_down :: "int env" where
  "image_model_down =
     example_env
       \<lparr>stable_diffusion := (\<lambda>p n. Inl (Error ''Error'' ''image model unavailable''))\<rparr>"

definition form_request :: "string \<Rightarrow> form_data \<Rightarrow> int request" where
  "form_request path fd =
     \<lparr>request_method = ''POST'', url_pathname = path,
      request_formData = Inr fd,
      request_json = Inl (Error ''SyntaxError'' ''Unexpected token'')\<rparr>"

definition json_request :: "string \<Rightarrow> int json \<Rightarrow> int request" where
  "json_request path j =
     \<lparr>request_method = ''POST'', url_pathname = path,
      request_formData = Inl (Error ''TypeError'' ''Unrecognized Content-Type header value''),
      request_json = Inr j\<rparr>"

definition empty_request :: "string \<Rightarrow> string \<Rightarrow> int request" where
  "empty_request m path =
     \<lparr>request_method = m, url_pathname = path,
      request_formData = Inl (Error ''TypeError'' ''Unrecognized Content-Type header value''),
      request_json = Inl (Error ''SyntaxError'' ''Unexpected end of JSON input'')\<rparr>"

definition silent_env :: "int env" where
  "silent_env = example_env \<lparr>phi_2 := (\<lambda>m t. Inr None)\<rparr>"

definition analyze_sample :: "int request" where
  "analyze_sample = form_request ''/api/analyze-image'' [(''image'', FieldFile [1, 2])]"

definition transform_sample :: "int request" where
  "transform_sample =
     form_request ''/api/transform-image''
       [(''image'', FieldFile [1, 2]), (''prompt'', FieldText ''add mountains''),
        (''style'', FieldText ''cartoon'')]"

definition generate_sample :: "string \<Rightarrow> int request" where
  "generate_sample style =
     json_request ''/api/generate-image'' (JObj [(''prompt'', JStr ''a cat''), (''style'', JStr style)])"

text \<open>The header lists a handler called with the CORS headers can answer with.\<close>

definition handler_headers :: "headers set" where
  "handler_headers = {corsHeaders @ [(''content-type'', ''application/json'')],
                      corsHeaders @ [(''Content-Type'', ''image/png'')]}"

section \<open>Properties\<close>

declare show_nat.simps [simp del]

subsection \<open>Effects\<close>

lemma bind_await_Inl: "bind (await (Inl e)) f = (Inl e, [])"
  by (simp add: bind_def await_def)

lemma bind_await_Inr: "bind (await (Inr x)) f = f x"
  by (simp add: bind_def await_def split: prod.splits)

lemma fst_bind: "fst (bind m f) = (case fst m of Inl e \<Rightarrow> Inl e | Inr x \<Rightarrow> fst (f x))"
  by (cases m) (simp add: bind_def split: sum.splits prod.splits)

lemma snd_bind: "snd (bind m f) = (case fst m of Inl e \<Rightarrow> snd m | Inr x \<Rightarrow> snd m @ snd (f x))"
  by (cases m) (simp add: bind_def split: sum.splits prod.splits)

lemma catch_Inl: "catch (Inl e, cs) h = (h e, cs)"
  by (simp add: catch_def)

lemma catch_Inr: "catch (Inr x, cs) h = (x, cs)"
  by (simp add: catch_def)

lemma fst_catch_Inl: "fst m = Inl e \<Longrightarrow> fst (catch m h) = h e"
  by (cases m) (simp add: catch_def)

lemma fst_catch_Inr: "fst m = Inr x \<Longrightarrow> fst (catch m h) = x"
  by (cases m) (simp add: catch_def)

lemma snd_catch: "snd (catch m h) = snd m"
  by (cases m) (simp add: catch_def split: sum.splits)

lemma Response_json_sel:
  "status (Response_json d st hs) = st" "body (Response_json d st hs) = JsonBody d"
  by (simp_all add: Response_json_def)

lemma fst_await: "fst (await r) = r"
  by (simp add: await_def)

lemma snd_await: "snd (await r) = []"
  by (simp add: await_def)

lemma fst_ret: "fst (ret x) = Inr x"
  by (simp add: ret_def)

lemma snd_ret: "snd (ret x) = []"
  by (simp add: ret_def)

lemmas run_defs = AI_run_resnet_50_def AI_run_phi_2_def AI_run_stable_diffusion_def

lemmas effect_defs = bind_def await_def ret_def catch_def run_defs

lemmas style_defs = select_style_def property_or_def get_property_def Object_prototype_def
  property_truthy_def property_ToString_def stylePrompts_generate_def stylePrompts_transform_def
  with_timestamp_def

lemmas sample_defs = example_env_def form_request_def json_request_def empty_request_def
  analyze_sample_def transform_sample_def generate_sample_def

subsection \<open>Decimal digits\<close>










lemma show_int_example: "show_int 1700000000000 = ''1700000000000''"
  by (simp add: show_int_def show_nat.simps digit_def)

subsection \<open>Top labels\<close>

text \<open>
  C5. For every classification result, \<open>topLabels\<close> is the labels of the first three
  entries, in their order, joined with a comma and a space: nothing for the empty list,
  the one label, the two labels, and the first three labels of a longer list whatever
  follows them. The list cat, dog, tree, sky gives \<open>cat, dog, tree\<close>.
\<close>

theorem topLabels_first_three:
  "topLabels ([] :: 'n item list) = []
   \<and> topLabels [a :: 'n item] = label a
   \<and> topLabels [a, b] = label a @ '', '' @ label b
   \<and> topLabels (a # b # c # rest) = label a @ '', '' @ label b @ '', '' @ label c
   \<and> topLabels [Item ''cat'' s1, Item ''dog'' s2, Item ''tree'' s3, Item ''sky'' s4]
       = ''cat, dog, tree''"
  by (simp add: topLabels_def)

subsection \<open>The final prompt of transformImage\<close>

text \<open>
  C4. In \<open>transformImage\<close>, with a base description \<open>b\<close> and a custom prompt \<open>c\<close> (the text
  of the form field \<open>prompt\<close>, or no such field), the final prompt before the style
  table is \<open>b\<close> itself when \<open>c\<close> is empty or absent, and \<open>b\<close>, a full stop, a space and
  \<open>c\<close> otherwise.
\<close>

theorem transform_finalPrompt:
  "finalPrompt_of b (form_or (Some (FieldText c)) []) = (if c = [] then b else b @ ''. '' @ c)
   \<and> finalPrompt_of b (form_or None []) = b
   \<and> finalPrompt_of ''A forest scene'' (form_or (Some (FieldText ''add mountains'')) [])
       = ''A forest scene. add mountains''"
  by (simp add: finalPrompt_of_def form_or_def form_truthy_def form_ToString_def)

subsection \<open>Errors\<close>

text \<open>
  C2. In each of the three handlers, a step of the pipeline that throws makes the handler
  answer with one JSON response of status 500 whose body has the handler's own \<open>error\<close>
  text and, as \<open>details\<close>, the message of the thrown error, and nothing else: no image
  bytes, no analysis, no description. The steps are, in order: the parse of the body;
  in \<open>generateImage\<close> the destructuring of the parsed value and the conversions of
  \<open>prompt\<close> and \<open>style\<close> to strings; in the two form handlers \<open>arrayBuffer\<close> on an
  \<open>image\<close> entry that is a non-empty string, the classifier and the text model; and
  the image model. The gateway calls made are those up to the step that throws.
\<close>

theorem throwing_step_gives_500:
  "(request_formData request = Inl e \<longrightarrow>
      analyzeImage env request hdrs
        = (Response_json (JObj [(''error'', JStr ''Image analysis failed''),
                                  (''details'', JStr (message e))]) 500 hdrs,
           []))
   \<and> (request_formData request = Inr fd \<and> formData_get fd ''image'' = Some (FieldText s)
        \<and> s \<noteq> [] \<longrightarrow>
      analyzeImage env request hdrs
        = (Response_json (JObj [(''error'', JStr ''Image analysis failed''),
                                  (''details'', JStr (message (TypeError env (NotAFunction ''imageFile.arrayBuffer''))))]) 500 hdrs,
           []))
   \<and> (request_formData request = Inr fd \<and> formData_get fd ''image'' = Some (FieldFile b)
        \<and> resnet_50 env b = Inl e \<longrightarrow>
      analyzeImage env request hdrs
        = (Response_json (JObj [(''error'', JStr ''Image analysis failed''),
                                  (''details'', JStr (message e))]) 500 hdrs,
           [(''@cf/microsoft/resnet-50'', ImageInput b)]))
   \<and> (request_formData request = Inr fd \<and> formData_get fd ''image'' = Some (FieldFile b)
        \<and> resnet_50 env b = Inr analysis
        \<and> phi_2 env [(''user'', analyze_content (topLabels analysis))] 200 = Inl e \<longrightarrow>
      analyzeImage env request hdrs
        = (Response_json (JObj [(''error'', JStr ''Image analysis failed''),
                                  (''details'', JStr (message e))]) 500 hdrs,
           [(''@cf/microsoft/resnet-50'', ImageInput b),
            (''@cf/microsoft/phi-2'', MessagesInput [(''user'', analyze_content (topLabels analysis))] 200)]))
   \<and> (request_json request = Inl e \<longrightarrow>
      generateImage env request hdrs
        = (Response_json (JObj [(''error'', JStr ''Image generation failed''),
                                  (''details'', JStr (message e))]) 500 hdrs,
           []))
   \<and> (request_json request = Inr JNull \<longrightarrow>
      generateImage env request hdrs
        = (Response_json (JObj [(''error'', JStr ''Image generation failed''),
                                  (''details'', JStr (message (TypeError env (CannotDestructure ''prompt''))))]) 500 hdrs,
           []))
   \<and> (request_json request = Inr (JObj fs) \<and> map_of fs ''prompt'' = Some pv
        \<and> truthy env (Some pv) \<and> ToString env pv = Inl e \<longrightarrow>
      generateImage env request hdrs
        = (Response_json (JObj [(''error'', JStr ''Image generation failed''),
                                  (''details'', JStr (message e))]) 500 hdrs,
           []))
   \<and> (request_json request = Inr (JObj fs) \<and> map_of fs ''prompt'' = Some pv
        \<and> truthy env (Some pv) \<and> ToString env pv = Inr p
        \<and> ToString env (case map_of fs ''style'' of None \<Rightarrow> JStr ''realistic'' | Some v \<Rightarrow> v) = Inl e \<longrightarrow>
      generateImage env request hdrs
        = (Response_json (JObj [(''error'', JStr ''Image generation failed''),
                                  (''details'', JStr (message e))]) 500 hdrs,
           []))
   \<and> (request_json request = Inr (JObj fs) \<and> map_of fs ''prompt'' = Some pv
        \<and> truthy env (Some pv) \<and> ToString env pv = Inr p
        \<and> ToString env (case map_of fs ''style'' of None \<Rightarrow> JStr ''realistic'' | Some v \<Rightarrow> v) = Inr k
        \<and> stable_diffusion env (with_timestamp env (select_style (stylePrompts_generate p) k)) 20 = Inl e \<longrightarrow>
      generateImage env request hdrs
        = (Response_json (JObj [(''error'', JStr ''Image generation failed''),
                                  (''details'', JStr (message e))]) 500 hdrs,
           [(''@cf/stabilityai/stable-diffusion-xl-base-1.0'',
             PromptInput
               (with_timestamp env (select_style (stylePrompts_generate p) k)) 20)]))
   \<and> (request_formData request = Inl e \<longrightarrow>
      transformImage env request hdrs
        = (Response_json (JObj [(''error'', JStr ''Image transformation failed''),
                                  (''details'', JStr (message e))]) 500 hdrs,
           []))
   \<and> (request_formData request = Inr fd \<and> formData_get fd ''image'' = Some (FieldText s)
        \<and> s \<noteq> [] \<longrightarrow>
      transformImage env request hdrs
        = (Response_json (JObj [(''error'', JStr ''Image transformation failed''),
                                  (''details'', JStr (message (TypeError env (NotAFunction ''imageFile.arrayBuffer''))))]) 500 hdrs,
           []))
   \<and> (request_formData request = Inr fd \<and> formData_get fd ''image'' = Some (FieldFile b)
        \<and> resnet_50 env b = Inl e \<longrightarrow>
      transformImage env request hdrs
        = (Response_json (JObj [(''error'', JStr ''Image transformation failed''),
                                  (''details'', JStr (message e))]) 500 hdrs,
           [(''@cf/microsoft/resnet-50'', ImageInput b)]))
   \<and> (request_formData request = Inr fd \<and> formData_get fd ''image'' = Some (FieldFile b)
        \<and> resnet_50 env b = Inr analysis
        \<and> phi_2 env [(''user'', transform_content (topLabels analysis) (form_or (formData_get fd ''prompt'') []))] 150 = Inl e \<longrightarrow>
      transformImage env request hdrs
        = (Response_json (JObj [(''error'', JStr ''Image transformation failed''),
                                  (''details'', JStr (message e))]) 500 hdrs,
           [(''@cf/microsoft/resnet-50'', ImageInput b),
            (''@cf/microsoft/phi-2'', MessagesInput [(''user'', transform_content (topLabels analysis) (form_or (formData_get fd ''prompt'') []))] 150)]))
   \<and> (request_formData request = Inr fd \<and> formData_get fd ''image'' = Some (FieldFile b)
        \<and> resnet_50 env b = Inr analysis
        \<and> phi_2 env [(''user'', transform_content (topLabels analysis) (form_or (formData_get fd ''prompt'') []))] 150 = Inr r
        \<and> stable_diffusion env
               (with_timestamp env
                  (select_style
                     (stylePrompts_transform
                        (finalPrompt_of (string_or r (''An image with '' @ topLabels analysis))
                           (form_or (formData_get fd ''prompt'') [])))
                     (form_ToString (form_or (formData_get fd ''style'') ''realistic'')))) 20 = Inl e \<longrightarrow>
      transformImage env request hdrs
        = (Response_json (JObj [(''error'', JStr ''Image transformation failed''),
                                  (''details'', JStr (message e))]) 500 hdrs,
           [(''@cf/microsoft/resnet-50'', ImageInput b),
            (''@cf/microsoft/phi-2'', MessagesInput [(''user'', transform_content (topLabels analysis) (form_or (formData_get fd ''prompt'') []))] 150),
            (''@cf/stabilityai/stable-diffusion-xl-base-1.0'',
             PromptInput
               (with_timestamp env
                  (select_style
                     (stylePrompts_transform
                        (finalPrompt_of (string_or r (''An image with '' @ topLabels analysis))
                           (form_or (formData_get fd ''prompt'') [])))
                     (form_ToString (form_or (formData_get fd ''style'') ''realistic'')))) 20)]))"
  by (intro conjI impI;
      simp add: analyzeImage_def analyzeImage_try_def generateImage_def generateImage_try_def
        transformImage_def transformImage_try_def effect_defs form_truthy_def arrayBuffer_def
        destructure_def ToString_opt_def Let_def)

text \<open>
  C3, as amended. A form without a field \<open>image\<close> makes \<open>analyzeImage\<close> and
  \<open>transformImage\<close> answer 400 with a JSON body whose only member is \<open>error\<close>.
  \<open>generateImage\<close> does the same for every parsed JSON body other than \<open>null\<close> whose
  \<open>prompt\<close> is absent or the empty string: an object without a member \<open>prompt\<close> or with
  the empty string there, and a boolean, a number, a string or an array, which have no
  such property. No call to the gateway is made. The body \<open>null\<close> is the exception: it
  cannot be destructured, so the \<open>try\<close> block throws before the check and the answer is
  the 500 response, again with no gateway call.
\<close>

theorem missing_input_gives_400:
  "(request_formData request = Inr fd \<and> formData_get fd ''image'' = None \<longrightarrow>
      analyzeImage env request hdrs
        = (Response_json (JObj [(''error'', JStr ''No image provided'')]) 400 hdrs, []))
   \<and> (request_formData request = Inr fd \<and> formData_get fd ''image'' = None \<longrightarrow>
      transformImage env request hdrs
        = (Response_json (JObj [(''error'', JStr ''No image provided'')]) 400 hdrs, []))
   \<and> (request_json request = Inr (JObj fs)
        \<and> (map_of fs ''prompt'' = None \<or> map_of fs ''prompt'' = Some (JStr [])) \<longrightarrow>
      generateImage env request hdrs
        = (Response_json (JObj [(''error'', JStr ''Prompt is required'')]) 400 hdrs, []))
   \<and> (request_json request = Inr j \<and> j \<noteq> JNull \<and> (\<forall>fs. j \<noteq> JObj fs) \<longrightarrow>
      generateImage env request hdrs
        = (Response_json (JObj [(''error'', JStr ''Prompt is required'')]) 400 hdrs, []))
   \<and> (request_json request = Inr JNull \<longrightarrow>
      generateImage env request hdrs
        = (Response_json
             (JObj [(''error'', JStr ''Image generation failed''),
                    (''details'', JStr (TypeError_message env (CannotDestructure ''prompt'')))])
             500 hdrs, []))"
proof (intro conjI impI)
  assume "request_formData request = Inr fd \<and> formData_get fd ''image'' = None"
  then show "analyzeImage env request hdrs
        = (Response_json (JObj [(''error'', JStr ''No image provided'')]) 400 hdrs, [])"
    by (simp add: analyzeImage_def analyzeImage_try_def effect_defs form_truthy_def)
next
  assume "request_formData request = Inr fd \<and> formData_get fd ''image'' = None"
  then show "transformImage env request hdrs
        = (Response_json (JObj [(''error'', JStr ''No image provided'')]) 400 hdrs, [])"
    by (simp add: transformImage_def transformImage_try_def effect_defs form_truthy_def)
next
  assume "request_json request = Inr (JObj fs)
        \<and> (map_of fs ''prompt'' = None \<or> map_of fs ''prompt'' = Some (JStr []))"
  then show "generateImage env request hdrs
        = (Response_json (JObj [(''error'', JStr ''Prompt is required'')]) 400 hdrs, [])"
    by (auto simp add: generateImage_def generateImage_try_def effect_defs destructure_def
        truthy_def)
next
  assume "request_json request = Inr j \<and> j \<noteq> JNull \<and> (\<forall>fs. j \<noteq> JObj fs)"
  then show "generateImage env request hdrs
        = (Response_json (JObj [(''error'', JStr ''Prompt is required'')]) 400 hdrs, [])"
    by (cases j)
      (simp_all add: generateImage_def generateImage_try_def effect_defs destructure_def
        truthy_def)
next
  assume "request_json request = Inr JNull"
  then show "generateImage env request hdrs
        = (Response_json
             (JObj [(''error'', JStr ''Image generation failed''),
                    (''details'', JStr (TypeError_message env (CannotDestructure ''prompt'')))])
             500 hdrs, [])"
    by (simp add: generateImage_def generateImage_try_def effect_defs destructure_def
        TypeError_def)
qed

text \<open>
  C10. A body that does not parse (\<open>request.json()\<close> throws in \<open>generateImage\<close>,
  \<open>request.formData()\<close> throws in \<open>analyzeImage\<close> and \<open>transformImage\<close>) gives the 500
  response of the handler with the message of the parse error, and no gateway call.
\<close>

theorem unparsable_body_gives_500:
  "(request_json request = Inl e \<longrightarrow>
      generateImage env request hdrs
        = (Response_json (JObj [(''error'', JStr ''Image generation failed''),
                                (''details'', JStr (message e))]) 500 hdrs, []))
   \<and> (request_formData request = Inl e \<longrightarrow>
      analyzeImage env request hdrs
        = (Response_json (JObj [(''error'', JStr ''Image analysis failed''),
                                (''details'', JStr (message e))]) 500 hdrs, []))
   \<and> (request_formData request = Inl e \<longrightarrow>
      transformImage env request hdrs
        = (Response_json (JObj [(''error'', JStr ''Image transformation failed''),
                                (''details'', JStr (message e))]) 500 hdrs, []))"
  by (simp add: analyzeImage_def analyzeImage_try_def transformImage_def transformImage_try_def
      generateImage_def generateImage_try_def bind_await_Inl catch_Inl)


text \<open>Witness of C2: each of the fourteen steps throws at a sample request.\<close>

theorem throwing_step_gives_500_witness:
  "fst (analyzeImage example_env (empty_request ''POST'' ''/api/analyze-image'') corsHeaders)
     = Response_json (JObj [(''error'', JStr ''Image analysis failed''),
                            (''details'', JStr ''Unrecognized Content-Type header value'')]) 500 corsHeaders
   \<and> fst (analyzeImage example_env (form_request ''/api/analyze-image'' [(''image'', FieldText ''cat.png'')]) corsHeaders)
     = Response_json (JObj [(''error'', JStr ''Image analysis failed''),
                            (''details'', JStr ''type error'')]) 500 corsHeaders
   \<and> fst (analyzeImage classifier_down analyze_sample corsHeaders)
     = Response_json (JObj [(''error'', JStr ''Image analysis failed''),
                            (''details'', JStr ''classifier unavailable'')]) 500 corsHeaders
   \<and> fst (analyzeImage text_model_down analyze_sample corsHeaders)
     = Response_json (JObj [(''error'', JStr ''Image analysis failed''),
                            (''details'', JStr ''text model unavailable'')]) 500 corsHeaders
   \<and> fst (generateImage example_env (empty_request ''POST'' ''/api/generate-image'') corsHeaders)
     = Response_json (JObj [(''error'', JStr ''Image generation failed''),
                            (''details'', JStr ''Unexpected end of JSON input'')]) 500 corsHeaders
   \<and> fst (generateImage example_env (json_request ''/api/generate-image'' JNull) corsHeaders)
     = Response_json (JObj [(''error'', JStr ''Image generation failed''),
                            (''details'', JStr ''type error'')]) 500 corsHeaders
   \<and> fst (generateImage example_env (json_request ''/api/generate-image'' (JObj [(''prompt'', (JObj [(''toString'', JNull)]) :: int json)])) corsHeaders)
     = Response_json (JObj [(''error'', JStr ''Image generation failed''),
                            (''details'', JStr ''type error'')]) 500 corsHeaders
   \<and> fst (generateImage example_env (json_request ''/api/generate-image'' (JObj [(''prompt'', JStr ''a cat''), (''style'', (JObj [(''toString'', JNull)]) :: int json)])) corsHeaders)
     = Response_json (JObj [(''error'', JStr ''Image generation failed''),
                            (''details'', JStr ''type error'')]) 500 corsHeaders
   \<and> fst (generateImage image_model_down (generate_sample ''artistic'') corsHeaders)
     = Response_json (JObj [(''error'', JStr ''Image generation failed''),
                            (''details'', JStr ''image model unavailable'')]) 500 corsHeaders
   \<and> fst (transformImage example_env (empty_request ''POST'' ''/api/transform-image'') corsHeaders)
     = Response_json (JObj [(''error'', JStr ''Image transformation failed''),
                            (''details'', JStr ''Unrecognized Content-Type header value'')]) 500 corsHeaders
   \<and> fst (transformImage example_env (form_request ''/api/transform-image'' [(''image'', FieldText ''cat.png'')]) corsHeaders)
     = Response_json (JObj [(''error'', JStr ''Image transformation failed''),
                            (''details'', JStr ''type error'')]) 500 corsHeaders
   \<and> fst (transformImage classifier_down transform_sample corsHeaders)
     = Response_json (JObj [(''error'', JStr ''Image transformation failed''),
                            (''details'', JStr ''classifier unavailable'')]) 500 corsHeaders
   \<and> fst (transformImage text_model_down transform_sample corsHeaders)
     = Response_json (JObj [(''error'', JStr ''Image transformation failed''),
                            (''details'', JStr ''text model unavailable'')]) 500 corsHeaders
   \<and> fst (transformImage image_model_down transform_sample corsHeaders)
     = Response_json (JObj [(''error'', JStr ''Image transformation failed''),
                            (''details'', JStr ''image model unavailable'')]) 500 corsHeaders"
proof -
  have a1: "request_formData (empty_request ''POST'' ''/api/analyze-image'') = Inl (Error ''TypeError'' ''Unrecognized Content-Type header value'')"
    by (simp add: sample_defs classifier_down_def text_model_down_def image_model_down_def
        formData_get_def truthy_def TypeError_def)
  have a2: "request_formData (form_request ''/api/analyze-image'' [(''image'', FieldText ''cat.png'')]) = Inr [(''image'', FieldText ''cat.png'')] \<and> formData_get [(''image'', FieldText ''cat.png'')] ''image'' = Some (FieldText ''cat.png'')
            \<and> ''cat.png'' \<noteq> []"
    by (simp add: sample_defs classifier_down_def text_model_down_def image_model_down_def
        formData_get_def truthy_def TypeError_def)
  have a3: "request_formData analyze_sample = Inr [(''image'', FieldFile [1, 2])] \<and> formData_get [(''image'', FieldFile [1, 2])] ''image'' = Some (FieldFile [1, 2])
            \<and> resnet_50 classifier_down [1, 2] = Inl (Error ''Error'' ''classifier unavailable'')"
    by (simp add: sample_defs classifier_down_def text_model_down_def image_model_down_def
        formData_get_def truthy_def TypeError_def)
  have a4: "request_formData analyze_sample = Inr [(''image'', FieldFile [1, 2])] \<and> formData_get [(''image'', FieldFile [1, 2])] ''image'' = Some (FieldFile [1, 2])
            \<and> resnet_50 text_model_down [1, 2] = Inr [Item ''cat'' 9, Item ''dog'' 5, Item ''tree'' 3, Item ''sky'' (1::int)]
            \<and> phi_2 text_model_down [(''user'', analyze_content (topLabels [Item ''cat'' 9, Item ''dog'' 5, Item ''tree'' 3, Item ''sky'' (1::int)]))] 200 = Inl (Error ''Error'' ''text model unavailable'')"
    by (simp add: sample_defs classifier_down_def text_model_down_def image_model_down_def
        formData_get_def truthy_def TypeError_def)
  have g1: "request_json (empty_request ''POST'' ''/api/generate-image'') = Inl (Error ''SyntaxError'' ''Unexpected end of JSON input'')"
    by (simp add: sample_defs classifier_down_def text_model_down_def image_model_down_def
        formData_get_def truthy_def TypeError_def)
  have g2: "request_json (json_request ''/api/generate-image'' JNull) = Inr JNull"
    by (simp add: sample_defs classifier_down_def text_model_down_def image_model_down_def
        formData_get_def truthy_def TypeError_def)
  have g3: "request_json (json_request ''/api/generate-image'' (JObj [(''prompt'', (JObj [(''toString'', JNull)]) :: int json)])) = Inr (JObj [(''prompt'', (JObj [(''toString'', JNull)]) :: int json)]) \<and> map_of [(''prompt'', (JObj [(''toString'', JNull)]) :: int json)] ''prompt'' = Some (JObj [(''toString'', JNull)])
            \<and> truthy example_env (Some (JObj [(''toString'', JNull)])) \<and> ToString example_env (JObj [(''toString'', JNull)]) = Inl (Error ''TypeError'' ''type error'')"
    by (simp add: sample_defs classifier_down_def text_model_down_def image_model_down_def
        formData_get_def truthy_def TypeError_def)
  have g4: "request_json (json_request ''/api/generate-image'' (JObj [(''prompt'', JStr ''a cat''), (''style'', (JObj [(''toString'', JNull)]) :: int json)])) = Inr (JObj [(''prompt'', JStr ''a cat''), (''style'', (JObj [(''toString'', JNull)]) :: int json)]) \<and> map_of [(''prompt'', JStr ''a cat''), (''style'', (JObj [(''toString'', JNull)]) :: int json)] ''prompt'' = Some (JStr ''a cat'')
            \<and> truthy example_env (Some (JStr ''a cat'')) \<and> ToString example_env (JStr ''a cat'') = Inr ''a cat''
            \<and> ToString example_env (case map_of [(''prompt'', JStr ''a cat''), (''style'', (JObj [(''toString'', JNull)]) :: int json)] ''style'' of None \<Rightarrow> JStr ''realistic'' | Some v \<Rightarrow> v) = Inl (Error ''TypeError'' ''type error'')"
    by (simp add: sample_defs classifier_down_def text_model_down_def image_model_down_def
        formData_get_def truthy_def TypeError_def)
  have g5: "request_json (generate_sample ''artistic'') = Inr (JObj [(''prompt'', JStr ''a cat''), (''style'', JStr ''artistic'' :: int json)]) \<and> map_of [(''prompt'', JStr ''a cat''), (''style'', JStr ''artistic'' :: int json)] ''prompt'' = Some (JStr ''a cat'')
            \<and> truthy image_model_down (Some (JStr ''a cat'')) \<and> ToString image_model_down (JStr ''a cat'') = Inr ''a cat''
            \<and> ToString image_model_down (case map_of [(''prompt'', JStr ''a cat''), (''style'', JStr ''artistic'' :: int json)] ''style'' of None \<Rightarrow> JStr ''realistic'' | Some v \<Rightarrow> v) = Inr ''artistic''
            \<and> stable_diffusion image_model_down (with_timestamp image_model_down (select_style (stylePrompts_generate ''a cat'') ''artistic'')) 20 = Inl (Error ''Error'' ''image model unavailable'')"
    by (simp add: sample_defs classifier_down_def text_model_down_def image_model_down_def
        formData_get_def truthy_def TypeError_def)
  have t1: "request_formData (empty_request ''POST'' ''/api/transform-image'') = Inl (Error ''TypeError'' ''Unrecognized Content-Type header value'')"
    by (simp add: sample_defs classifier_down_def text_model_down_def image_model_down_def
        formData_get_def truthy_def TypeError_def)
  have t2: "request_formData (form_request ''/api/transform-image'' [(''image'', FieldText ''cat.png'')]) = Inr [(''image'', FieldText ''cat.png'')] \<and> formData_get [(''image'', FieldText ''cat.png'')] ''image'' = Some (FieldText ''cat.png'')
            \<and> ''cat.png'' \<noteq> []"
    by (simp add: sample_defs classifier_down_def text_model_down_def image_model_down_def
        formData_get_def truthy_def TypeError_def)
  have t3: "request_formData transform_sample = Inr [(''image'', FieldFile [1, 2]), (''prompt'', FieldText ''add mountains''),
                  (''style'', FieldText ''cartoon'')] \<and> formData_get [(''image'', FieldFile [1, 2]), (''prompt'', FieldText ''add mountains''),
                  (''style'', FieldText ''cartoon'')] ''image'' = Some (FieldFile [1, 2])
            \<and> resnet_50 classifier_down [1, 2] = Inl (Error ''Error'' ''classifier unavailable'')"
    by (simp add: sample_defs classifier_down_def text_model_down_def image_model_down_def
        formData_get_def truthy_def TypeError_def)
  have t4: "request_formData transform_sample = Inr [(''image'', FieldFile [1, 2]), (''prompt'', FieldText ''add mountains''),
                  (''style'', FieldText ''cartoon'')] \<and> formData_get [(''image'', FieldFile [1, 2]), (''prompt'', FieldText ''add mountains''),
                  (''style'', FieldText ''cartoon'')] ''image'' = Some (FieldFile [1, 2])
            \<and> resnet_50 text_model_down [1, 2] = Inr [Item ''cat'' 9, Item ''dog'' 5, Item ''tree'' 3, Item ''sky'' (1::int)]
            \<and> phi_2 text_model_down [(''user'', transform_content (topLabels [Item ''cat'' 9, Item ''dog'' 5, Item ''tree'' 3, Item ''sky'' (1::int)]) (form_or (formData_get [(''image'', FieldFile [1, 2]), (''prompt'', FieldText ''add mountains''),
                  (''style'', FieldText ''cartoon'')] ''prompt'') []))] 150 = Inl (Error ''Error'' ''text model unavailable'')"
    by (simp add: sample_defs classifier_down_def text_model_down_def image_model_down_def
        formData_get_def truthy_def TypeError_def)
  have t5: "request_formData transform_sample = Inr [(''image'', FieldFile [1, 2]), (''prompt'', FieldText ''add mountains''),
                  (''style'', FieldText ''cartoon'')] \<and> formData_get [(''image'', FieldFile [1, 2]), (''prompt'', FieldText ''add mountains''),
                  (''style'', FieldText ''cartoon'')] ''image'' = Some (FieldFile [1, 2])
            \<and> resnet_50 image_model_down [1, 2] = Inr [Item ''cat'' 9, Item ''dog'' 5, Item ''tree'' 3, Item ''sky'' (1::int)]
            \<and> phi_2 image_model_down [(''user'', transform_content (topLabels [Item ''cat'' 9, Item ''dog'' 5, Item ''tree'' 3, Item ''sky'' (1::int)]) (form_or (formData_get [(''image'', FieldFile [1, 2]), (''prompt'', FieldText ''add mountains''),
                  (''style'', FieldText ''cartoon'')] ''prompt'') []))] 150 = Inr (Some ''A forest scene'')
            \<and> stable_diffusion image_model_down
                   (with_timestamp image_model_down
                      (select_style
                         (stylePrompts_transform
                            (finalPrompt_of (string_or (Some ''A forest scene'') (''An image with '' @ topLabels [Item ''cat'' 9, Item ''dog'' 5, Item ''tree'' 3, Item ''sky'' (1::int)]))
                               (form_or (formData_get [(''image'', FieldFile [1, 2]), (''prompt'', FieldText ''add mountains''),
                  (''style'', FieldText ''cartoon'')] ''prompt'') [])))
                         (form_ToString (form_or (formData_get [(''image'', FieldFile [1, 2]), (''prompt'', FieldText ''add mountains''),
                  (''style'', FieldText ''cartoon'')] ''style'') ''realistic'')))) 20 = Inl (Error ''Error'' ''image model unavailable'')"
    by (simp add: sample_defs classifier_down_def text_model_down_def image_model_down_def
        formData_get_def truthy_def TypeError_def)
  note A1 = throwing_step_gives_500 [THEN conjunct1, rule_format, OF a1]
  note A2 = throwing_step_gives_500 [THEN conjunct2, THEN conjunct1, rule_format, OF a2]
  note A3 = throwing_step_gives_500 [THEN conjunct2, THEN conjunct2, THEN conjunct1, rule_format, OF a3]
  note A4 = throwing_step_gives_500 [THEN conjunct2, THEN conjunct2, THEN conjunct2, THEN conjunct1, rule_format, OF a4]
  note G1 = throwing_step_gives_500 [THEN conjunct2, THEN conjunct2, THEN conjunct2, THEN conjunct2, THEN conjunct1, rule_format, OF g1]
  note G2 = throwing_step_gives_500 [THEN conjunct2, THEN conjunct2, THEN conjunct2, THEN conjunct2, THEN conjunct2, THEN conjunct1, rule_format, OF g2]
  note G3 = throwing_step_gives_500 [THEN conjunct2, THEN conjunct2, THEN conjunct2, THEN conjunct2, THEN conjunct2, THEN conjunct2, THEN conjunct1, rule_format, OF g3]
  note G4 = throwing_step_gives_500 [THEN conjunct2, THEN conjunct2, THEN conjunct2, THEN conjunct2, THEN conjunct2, THEN conjunct2, THEN conjunct2, THEN conjunct1, rule_format, OF g4]
  note G5 = throwing_step_gives_500 [THEN conjunct2, THEN conjunct2, THEN conjunct2, THEN conjunct2, THEN conjunct2, THEN conjunct2, THEN conjunct2, THEN conjunct2, THEN conjunct1, rule_format, OF g5]
  note T1 = throwing_step_gives_500 [THEN conjunct2, THEN conjunct2, THEN conjunct2, THEN conjunct2, THEN conjunct2, THEN conjunct2, THEN conjunct2, THEN conjunct2, THEN conjunct2, THEN conjunct1, rule_format, OF t1]
  note T2 = throwing_step_gives_500 [THEN conjunct2, THEN conjunct2, THEN conjunct2, THEN conjunct2, THEN conjunct2, THEN conjunct2, THEN conjunct2, THEN conjunct2, THEN conjunct2, THEN conjunct2, THEN conjunct1, rule_format, OF t2]
  note T3 = throwing_step_gives_500 [THEN conjunct2, THEN conjunct2, THEN conjunct2, THEN conjunct2, THEN conjunct2, THEN conjunct2, THEN conjunct2, THEN conjunct2, THEN conjunct2, THEN conjunct2, THEN conjunct2, THEN conjunct1, rule_format, OF t3]
  note T4 = throwing_step_gives_500 [THEN conjunct2, THEN conjunct2, THEN conjunct2, THEN conjunct2, THEN conjunct2, THEN conjunct2, THEN conjunct2, THEN conjunct2, THEN conjunct2, THEN conjunct2, THEN conjunct2, THEN conjunct2, THEN conjunct1, rule_format, OF t4]
  note T5 = throwing_step_gives_500 [THEN conjunct2, THEN conjunct2, THEN conjunct2, THEN conjunct2, THEN conjunct2, THEN conjunct2, THEN conjunct2, THEN conjunct2, THEN conjunct2, THEN conjunct2, THEN conjunct2, THEN conjunct2, THEN conjunct2, rule_format, OF t5]
  have ca1: "fst (analyzeImage example_env (empty_request ''POST'' ''/api/analyze-image'') corsHeaders)
             = Response_json (JObj [(''error'', JStr ''Image analysis failed''),
                                    (''details'', JStr ''Unrecognized Content-Type header value'')]) 500 corsHeaders"
    using A1 by (simp add: TypeError_def example_env_def)
  have ca2: "fst (analyzeImage example_env (form_request ''/api/analyze-image'' [(''image'', FieldText ''cat.png'')]) corsHeaders)
             = Response_json (JObj [(''error'', JStr ''Image analysis failed''),
                                    (''details'', JStr ''type error'')]) 500 corsHeaders"
    using A2 by (simp add: TypeError_def example_env_def)
  have ca3: "fst (analyzeImage classifier_down analyze_sample corsHeaders)
             = Response_json (JObj [(''error'', JStr ''Image analysis failed''),
                                    (''details'', JStr ''classifier unavailable'')]) 500 corsHeaders"
    using A3 by (simp add: TypeError_def example_env_def)
  have ca4: "fst (analyzeImage text_model_down analyze_sample corsHeaders)
             = Response_json (JObj [(''error'', JStr ''Image analysis failed''),
                                    (''details'', JStr ''text model unavailable'')]) 500 corsHeaders"
    using A4 by (simp add: TypeError_def example_env_def)
  have cg1: "fst (generateImage example_env (empty_request ''POST'' ''/api/generate-image'') corsHeaders)
             = Response_json (JObj [(''error'', JStr ''Image generation failed''),
                                    (''details'', JStr ''Unexpected end of JSON input'')]) 500 corsHeaders"
    using G1 by (simp add: TypeError_def example_env_def)
  have cg2: "fst (generateImage example_env (json_request ''/api/generate-image'' JNull) corsHeaders)
             = Response_json (JObj [(''error'', JStr ''Image generation failed''),
                                    (''details'', JStr ''type error'')]) 500 corsHeaders"
    using G2 by (simp add: TypeError_def example_env_def)
  have cg3: "fst (generateImage example_env (json_request ''/api/generate-image'' (JObj [(''prompt'', (JObj [(''toString'', JNull)]) :: int json)])) corsHeaders)
             = Response_json (JObj [(''error'', JStr ''Image generation failed''),
                                    (''details'', JStr ''type error'')]) 500 corsHeaders"
    using G3 by (simp add: TypeError_def example_env_def)
  have cg4: "fst (generateImage example_env (json_request ''/api/generate-image'' (JObj [(''prompt'', JStr ''a cat''), (''style'', (JObj [(''toString'', JNull)]) :: int json)])) corsHeaders)
             = Response_json (JObj [(''error'', JStr ''Image generation failed''),
                                    (''details'', JStr ''type error'')]) 500 corsHeaders"
    using G4 by (simp add: TypeError_def example_env_def)
  have cg5: "fst (generateImage image_model_down (generate_sample ''artistic'') corsHeaders)
             = Response_json (JObj [(''error'', JStr ''Image generation failed''),
                                    (''details'', JStr ''image model unavailable'')]) 500 corsHeaders"
    using G5 by (simp add: TypeError_def example_env_def)
  have ct1: "fst (transformImage example_env (empty_request ''POST'' ''/api/transform-image'') corsHeaders)
             = Response_json (JObj [(''error'', JStr ''Image transformation failed''),
                                    (''details'', JStr ''Unrecognized Content-Type header value'')]) 500 corsHeaders"
    using T1 by (simp add: TypeError_def example_env_def)
  have ct2: "fst (transformImage example_env (form_request ''/api/transform-image'' [(''image'', FieldText ''cat.png'')]) corsHeaders)
             = Response_json (JObj [(''error'', JStr ''Image transformation failed''),
                                    (''details'', JStr ''type error'')]) 500 corsHeaders"
    using T2 by (simp add: TypeError_def example_env_def)
  have ct3: "fst (transformImage classifier_down transform_sample corsHeaders)
             = Response_json (JObj [(''error'', JStr ''Image transformation failed''),
                                    (''details'', JStr ''classifier unavailable'')]) 500 corsHeaders"
    using T3 by (simp add: TypeError_def example_env_def)
  have ct4: "fst (transformImage text_model_down transform_sample corsHeaders)
             = Response_json (JObj [(''error'', JStr ''Image transformation failed''),
                                    (''details'', JStr ''text model unavailable'')]) 500 corsHeaders"
    using T4 by (simp add: TypeError_def example_env_def)
  have ct5: "fst (transformImage image_model_down transform_sample corsHeaders)
             = Response_json (JObj [(''error'', JStr ''Image transformation failed''),
                                    (''details'', JStr ''image model unavailable'')]) 500 corsHeaders"
    using T5 by (simp add: TypeError_def example_env_def)
  show ?thesis
    by (intro conjI) (rule ca1 ca2 ca3 ca4 cg1 cg2 cg3 cg4 cg5 ct1 ct2 ct3 ct4 ct5)+
qed

text \<open>
  Witness of C3: a form with no entry, the JSON object with no member, the empty JSON
  array, and \<open>null\<close>.
\<close>

theorem missing_input_gives_400_witness:
  "analyzeImage example_env (form_request ''/api/analyze-image'' []) corsHeaders
     = (Response_json (JObj [(''error'', JStr ''No image provided'')]) 400 corsHeaders, [])
   \<and> transformImage example_env (form_request ''/api/analyze-image'' []) corsHeaders
     = (Response_json (JObj [(''error'', JStr ''No image provided'')]) 400 corsHeaders, [])
   \<and> generateImage example_env (json_request ''/api/generate-image'' (JObj [])) corsHeaders
     = (Response_json (JObj [(''error'', JStr ''Prompt is required'')]) 400 corsHeaders, [])
   \<and> generateImage example_env (json_request ''/api/generate-image'' (JArr [])) corsHeaders
     = (Response_json (JObj [(''error'', JStr ''Prompt is required'')]) 400 corsHeaders, [])
   \<and> generateImage example_env (json_request ''/api/generate-image'' JNull) corsHeaders
     = (Response_json (JObj [(''error'', JStr ''Image generation failed''),
                             (''details'', JStr ''type error'')]) 500 corsHeaders, [])"
proof -
  have f: "request_formData (form_request ''/api/analyze-image'' []) = Inr []
           \<and> formData_get [] ''image'' = None"
    by (simp add: form_request_def formData_get_def)
  have j: "request_json (json_request ''/api/generate-image'' (JObj [])) = Inr (JObj [])
           \<and> (map_of [] ''prompt'' = None \<or> map_of [] ''prompt'' = Some (JStr []))"
    by (simp add: json_request_def)
  have a: "request_json (json_request ''/api/generate-image'' (JArr [])) = Inr (JArr [])
           \<and> JArr [] \<noteq> (JNull :: int json) \<and> (\<forall>fs. JArr [] \<noteq> (JObj fs :: int json))"
    by (simp add: json_request_def)
  have n: "request_json (json_request ''/api/generate-image'' JNull) = Inr JNull"
    by (simp add: json_request_def)
  note A = missing_input_gives_400 [THEN conjunct1, rule_format, OF f]
  note T = missing_input_gives_400 [THEN conjunct2, THEN conjunct1, rule_format, OF f]
  note G = missing_input_gives_400 [THEN conjunct2, THEN conjunct2, THEN conjunct1, rule_format,
      OF j]
  note N = missing_input_gives_400 [THEN conjunct2, THEN conjunct2, THEN conjunct2,
      THEN conjunct1, rule_format, OF a]
  note Z = missing_input_gives_400 [THEN conjunct2, THEN conjunct2, THEN conjunct2,
      THEN conjunct2, rule_format, OF n]
  from A [of example_env corsHeaders] T [of example_env corsHeaders]
    G [of example_env corsHeaders] N [of example_env corsHeaders]
    Z [of example_env corsHeaders]
  show ?thesis by (simp add: example_env_def)
qed

text \<open>
  Counterexample to C3 as first stated: the body \<open>null\<close> is valid JSON and has no
  \<open>prompt\<close>, and \<open>generateImage\<close> answers 500, not 400.
\<close>

theorem missing_prompt_null_body_counterexample:
  "request_json (json_request ''/api/generate-image'' JNull) = Inr JNull
   \<and> fst (generateImage example_env (json_request ''/api/generate-image'' JNull) corsHeaders)
       = Response_json (JObj [(''error'', JStr ''Image generation failed''),
                              (''details'', JStr ''type error'')]) 500 corsHeaders
   \<and> status (fst (generateImage example_env (json_request ''/api/generate-image'' JNull)
                      corsHeaders)) \<noteq> 400"
  by (simp add: generateImage_def generateImage_try_def effect_defs destructure_def TypeError_def
      json_request_def example_env_def Response_json_def)

text \<open>Witness of C10: a request whose body parses neither as JSON nor as a form.\<close>

theorem unparsable_body_gives_500_witness:
  "request_json (empty_request ''POST'' ''/api/generate-image'')
     = Inl (Error ''SyntaxError'' ''Unexpected end of JSON input'')
   \<and> generateImage example_env (empty_request ''POST'' ''/api/generate-image'') corsHeaders
     = (Response_json (JObj [(''error'', JStr ''Image generation failed''),
                             (''details'', JStr ''Unexpected end of JSON input'')]) 500 corsHeaders,
        [])
   \<and> request_formData (empty_request ''POST'' ''/api/generate-image'')
     = Inl (Error ''TypeError'' ''Unrecognized Content-Type header value'')
   \<and> analyzeImage example_env (empty_request ''POST'' ''/api/generate-image'') corsHeaders
     = (Response_json (JObj [(''error'', JStr ''Image analysis failed''),
                             (''details'', JStr ''Unrecognized Content-Type header value'')])
          500 corsHeaders, [])
   \<and> transformImage example_env (empty_request ''POST'' ''/api/generate-image'') corsHeaders
     = (Response_json (JObj [(''error'', JStr ''Image transformation failed''),
                             (''details'', JStr ''Unrecognized Content-Type header value'')])
          500 corsHeaders, [])"
proof -
  have j: "request_json (empty_request ''POST'' ''/api/generate-image'')
             = Inl (Error ''SyntaxError'' ''Unexpected end of JSON input'')"
    by (simp add: empty_request_def)
  have f: "request_formData (empty_request ''POST'' ''/api/generate-image'')
             = Inl (Error ''TypeError'' ''Unrecognized Content-Type header value'')"
    by (simp add: empty_request_def)
  note G = unparsable_body_gives_500 [THEN conjunct1, rule_format, OF j]
  note A = unparsable_body_gives_500 [THEN conjunct2, THEN conjunct1, rule_format, OF f]
  note T = unparsable_body_gives_500 [THEN conjunct2, THEN conjunct2, rule_format, OF f]
  from j f G [of example_env corsHeaders] A [of example_env corsHeaders]
    T [of example_env corsHeaders]
  show ?thesis by simp
qed

subsection \<open>The description\<close>

text \<open>
  C6. When the form carries an image file and the classifier and the text model answer,
  the description is the text model's output if that is a non-empty string and the
  fallback built from \<open>topLabels\<close> otherwise. \<open>analyzeImage\<close> returns it unchanged as
  \<open>description\<close> (and after a fixed prefix as \<open>prompt_suggestion\<close>); \<open>transformImage\<close>
  puts it unchanged at the head of the final prompt that goes through the style table to
  the image model.
\<close>

theorem description_or_fallback:
  "(request_formData request = Inr fd \<and> formData_get fd ''image'' = Some (FieldFile b)
      \<and> resnet_50 env b = Inr analysis
      \<and> phi_2 env [(''user'', analyze_content (topLabels analysis))] 200 = Inr r \<longrightarrow>
      (let description =
             (case r of Some (c # s) \<Rightarrow> c # s | _ \<Rightarrow> ''An image featuring '' @ topLabels analysis)
       in fst (analyzeImage env request hdrs)
            = Response_json
                (JObj [(''analysis'', analysis_json analysis),
                       (''description'', JStr description),
                       (''prompt_suggestion'', JStr (''Create a new image: '' @ description))])
                200 hdrs))
   \<and> (request_formData request = Inr fd \<and> formData_get fd ''image'' = Some (FieldFile b)
      \<and> resnet_50 env b = Inr analysis
      \<and> phi_2 env [(''user'', transform_content (topLabels analysis)
                                 (form_or (formData_get fd ''prompt'') []))] 150 = Inr r \<longrightarrow>
      (let baseDescription =
             (case r of Some (c # s) \<Rightarrow> c # s | _ \<Rightarrow> ''An image with '' @ topLabels analysis);
           customPrompt = form_or (formData_get fd ''prompt'') [];
           finalPrompt =
             (if form_truthy (Some customPrompt)
              then baseDescription @ ''. '' @ form_ToString customPrompt
              else baseDescription)
       in snd (transformImage env request hdrs)
            = [(''@cf/microsoft/resnet-50'', ImageInput b),
               (''@cf/microsoft/phi-2'',
                MessagesInput [(''user'', transform_content (topLabels analysis) customPrompt)] 150),
               (''@cf/stabilityai/stable-diffusion-xl-base-1.0'',
                PromptInput
                  (with_timestamp env
                     (select_style (stylePrompts_transform finalPrompt)
                        (form_ToString (form_or (formData_get fd ''style'') ''realistic''))))
                  20)]))"
proof (intro conjI impI)
  assume a: "request_formData request = Inr fd \<and> formData_get fd ''image'' = Some (FieldFile b)
      \<and> resnet_50 env b = Inr analysis
      \<and> phi_2 env [(''user'', analyze_content (topLabels analysis))] 200 = Inr r"
  have d: "string_or r fb = (case r of Some (c # s) \<Rightarrow> c # s | _ \<Rightarrow> fb)" for fb
    by (simp add: string_or_def split: option.splits list.splits)
  from a show "let description =
             (case r of Some (c # s) \<Rightarrow> c # s | _ \<Rightarrow> ''An image featuring '' @ topLabels analysis)
       in fst (analyzeImage env request hdrs)
            = Response_json
                (JObj [(''analysis'', analysis_json analysis),
                       (''description'', JStr description),
                       (''prompt_suggestion'', JStr (''Create a new image: '' @ description))])
                200 hdrs"
    by (simp add: analyzeImage_def analyzeImage_try_def effect_defs form_truthy_def
        arrayBuffer_def Let_def d split: option.splits list.splits)
next
  assume a: "request_formData request = Inr fd \<and> formData_get fd ''image'' = Some (FieldFile b)
      \<and> resnet_50 env b = Inr analysis
      \<and> phi_2 env [(''user'', transform_content (topLabels analysis)
                                 (form_or (formData_get fd ''prompt'') []))] 150 = Inr r"
  have d: "string_or r fb = (case r of Some (c # s) \<Rightarrow> c # s | _ \<Rightarrow> fb)" for fb
    by (simp add: string_or_def split: option.splits list.splits)
  from a show "let baseDescription =
             (case r of Some (c # s) \<Rightarrow> c # s | _ \<Rightarrow> ''An image with '' @ topLabels analysis);
           customPrompt = form_or (formData_get fd ''prompt'') [];
           finalPrompt =
             (if form_truthy (Some customPrompt)
              then baseDescription @ ''. '' @ form_ToString customPrompt
              else baseDescription)
       in snd (transformImage env request hdrs)
            = [(''@cf/microsoft/resnet-50'', ImageInput b),
               (''@cf/microsoft/phi-2'',
                MessagesInput [(''user'', transform_content (topLabels analysis) customPrompt)] 150),
               (''@cf/stabilityai/stable-diffusion-xl-base-1.0'',
                PromptInput
                  (with_timestamp env
                     (select_style (stylePrompts_transform finalPrompt)
                        (form_ToString (form_or (formData_get fd ''style'') ''realistic''))))
                  20)]"
    by (simp add: transformImage_def transformImage_try_def snd_catch snd_bind fst_bind fst_await
        snd_await snd_ret run_defs form_truthy_def arrayBuffer_def Let_def d finalPrompt_of_def
        split: sum.splits option.splits list.splits)
qed

text \<open>Witness of C6: the text model answers, and the text model answers nothing.\<close>

theorem description_or_fallback_witness:
  "fst (analyzeImage example_env analyze_sample corsHeaders)
     = Response_json
         (JObj [(''analysis'',
                 analysis_json [Item ''cat'' 9, Item ''dog'' 5, Item ''tree'' 3, Item ''sky'' 1]),
                (''description'', JStr ''A forest scene''),
                (''prompt_suggestion'', JStr ''Create a new image: A forest scene'')])
         200 corsHeaders
   \<and> fst (analyzeImage silent_env analyze_sample corsHeaders)
     = Response_json
         (JObj [(''analysis'',
                 analysis_json [Item ''cat'' 9, Item ''dog'' 5, Item ''tree'' 3, Item ''sky'' 1]),
                (''description'', JStr ''An image featuring cat, dog, tree''),
                (''prompt_suggestion'', JStr ''Create a new image: An image featuring cat, dog, tree'')])
         200 corsHeaders
   \<and> snd (transformImage example_env transform_sample corsHeaders)
     = [(''@cf/microsoft/resnet-50'', ImageInput [1, 2]),
        (''@cf/microsoft/phi-2'',
         MessagesInput
           [(''user'',
             ''Describe this image for AI generation. Content: cat, dog, tree. Also: add mountains'')]
           150),
        (''@cf/stabilityai/stable-diffusion-xl-base-1.0'',
         PromptInput
           ''cartoon A forest scene. add mountains, animated style timestamp:1700000000000'' 20)]"
proof -
  let ?analysis = "[Item ''cat'' 9, Item ''dog'' 5, Item ''tree'' 3, Item ''sky'' (1::int)]"
  have a: "request_formData analyze_sample = Inr [(''image'', FieldFile [1, 2])]
           \<and> formData_get [(''image'', FieldFile [1, 2])] ''image'' = Some (FieldFile [1, 2])
           \<and> resnet_50 example_env [1, 2] = Inr ?analysis
           \<and> phi_2 example_env [(''user'', analyze_content (topLabels ?analysis))] 200
               = Inr (Some ''A forest scene'')"
    by (simp add: sample_defs formData_get_def)
  have b: "request_formData analyze_sample = Inr [(''image'', FieldFile [1, 2])]
           \<and> formData_get [(''image'', FieldFile [1, 2])] ''image'' = Some (FieldFile [1, 2])
           \<and> resnet_50 silent_env [1, 2] = Inr ?analysis
           \<and> phi_2 silent_env [(''user'', analyze_content (topLabels ?analysis))] 200 = Inr None"
    by (simp add: sample_defs silent_env_def formData_get_def)
  let ?fd = "[(''image'', FieldFile [1, 2]), (''prompt'', FieldText ''add mountains''),
              (''style'', FieldText ''cartoon'')]"
  have c: "request_formData transform_sample = Inr ?fd
           \<and> formData_get ?fd ''image'' = Some (FieldFile [1, 2])
           \<and> resnet_50 example_env [1, 2] = Inr ?analysis
           \<and> phi_2 example_env
                [(''user'', transform_content (topLabels ?analysis)
                              (form_or (formData_get ?fd ''prompt'') []))] 150
               = Inr (Some ''A forest scene'')"
    by (simp add: sample_defs formData_get_def)
  note A = description_or_fallback [THEN conjunct1, rule_format, OF a, of corsHeaders]
  note B = description_or_fallback [THEN conjunct1, rule_format, OF b, of corsHeaders]
  note C = description_or_fallback [THEN conjunct2, rule_format, OF c, of corsHeaders]
  have 1: "fst (analyzeImage example_env analyze_sample corsHeaders)
     = Response_json
         (JObj [(''analysis'', analysis_json ?analysis),
                (''description'', JStr ''A forest scene''),
                (''prompt_suggestion'', JStr ''Create a new image: A forest scene'')])
         200 corsHeaders"
    using A by (simp add: topLabels_def Let_def)
  have 2: "fst (analyzeImage silent_env analyze_sample corsHeaders)
     = Response_json
         (JObj [(''analysis'', analysis_json ?analysis),
                (''description'', JStr ''An image featuring cat, dog, tree''),
                (''prompt_suggestion'', JStr ''Create a new image: An image featuring cat, dog, tree'')])
         200 corsHeaders"
    using B by (simp add: topLabels_def Let_def)
  have 3: "snd (transformImage example_env transform_sample corsHeaders)
     = [(''@cf/microsoft/resnet-50'', ImageInput [1, 2]),
        (''@cf/microsoft/phi-2'',
         MessagesInput
           [(''user'',
             ''Describe this image for AI generation. Content: cat, dog, tree. Also: add mountains'')]
           150),
        (''@cf/stabilityai/stable-diffusion-xl-base-1.0'',
         PromptInput
           ''cartoon A forest scene. add mountains, animated style timestamp:1700000000000'' 20)]"
    using C
    by (simp add: Let_def topLabels_def formData_get_def form_or_def form_truthy_def form_ToString_def
        transform_content_def style_defs example_env_def show_int_example)
  from 1 2 3 show ?thesis by simp
qed

subsection \<open>The style table\<close>

text \<open>
  C1. The claim is that a style outside the four names composes the same prompt as
  \<open>realistic\<close>. The style \<open>constructor\<close> is outside the four names, and the lookup
  \<open>stylePrompts[style]\<close> finds the function \<open>Object\<close> on the prototype, which is truthy:
  the prompt sent to the image model is the text of that function, not the realistic
  template. The same holds for the table of \<open>transformImage\<close>.
\<close>

theorem inherited_style_is_not_realistic:
  "snd (generateImage example_env
          (json_request ''/api/generate-image''
             (JObj [(''prompt'', JStr ''a cat''), (''style'', JStr ''constructor'')]))
          corsHeaders)
     = [(''@cf/stabilityai/stable-diffusion-xl-base-1.0'',
         PromptInput ''function Object() { [native code] } timestamp:1700000000000'' 20)]
   \<and> snd (generateImage example_env
          (json_request ''/api/generate-image''
             (JObj [(''prompt'', JStr ''a cat''), (''style'', JStr ''realistic'')]))
          corsHeaders)
     = [(''@cf/stabilityai/stable-diffusion-xl-base-1.0'',
         PromptInput ''photorealistic a cat, high detail, 4k timestamp:1700000000000'' 20)]
   \<and> select_style (stylePrompts_generate p) ''constructor'' = NativeFunction ''Object''
   \<and> select_style (stylePrompts_generate p) ''realistic''
       = String (''photorealistic '' @ p @ '', high detail, 4k'')
   \<and> select_style (stylePrompts_transform p) ''constructor'' = NativeFunction ''Object''
   \<and> select_style (stylePrompts_transform p) ''realistic''
       = String (''photorealistic '' @ p @ '', high detail'')"
  by (simp add: generateImage_def generateImage_try_def effect_defs style_defs sample_defs
      destructure_def truthy_def ToString_opt_def show_int_example)

text \<open>
  A style that is neither one of the four names nor the name of a property of
  \<open>Object.prototype\<close> does fall back to the realistic template.
\<close>

lemma select_style_unknown:
  assumes "style \<notin> {''realistic'', ''artistic'', ''cartoon'', ''abstract''}"
    and "Object_prototype style = Undefined"
  shows "select_style (stylePrompts_generate p) style = select_style (stylePrompts_generate p) ''realistic''"
    and "select_style (stylePrompts_transform p) style = select_style (stylePrompts_transform p) ''realistic''"
  using assms by (simp_all add: select_style_def property_or_def get_property_def
      property_truthy_def stylePrompts_generate_def stylePrompts_transform_def)

subsection \<open>The router\<close>

lemma has_header_cors: "\<not> has_header corsHeaders ''content-type''"
  by (simp add: has_header_def corsHeaders_def to_lower_def)

lemma headers_Response_json_cors:
  "headers (Response_json d st corsHeaders) = corsHeaders @ [(''content-type'', ''application/json'')]"
  by (simp add: Response_json_def has_header_cors)

lemma spread_cors: "spread corsHeaders ''Content-Type'' v = corsHeaders @ [(''Content-Type'', v)]"
  by (simp add: corsHeaders_def)

text \<open>
  C7. The router answers each request once, by method and path: \<open>OPTIONS\<close> on any path
  with status 200, no body and the three CORS headers; \<open>GET /\<close> with the page; \<open>POST\<close>
  on the three API paths with what the handler of that path returns; everything else
  with status 200 and the JSON list of capabilities.
\<close>

theorem router_dispatch:
  "(request_method request = ''OPTIONS'' \<longrightarrow>
      fetch getHTML env request = (\<lparr>status = 200, headers = corsHeaders, body = NullBody\<rparr>, []))
   \<and> (request_method request = ''GET'' \<and> url_pathname request = ''/'' \<longrightarrow>
      fetch getHTML env request
        = (\<lparr>status = 200, headers = corsHeaders @ [(''Content-Type'', ''text/html'')],
            body = TextBody getHTML\<rparr>, []))
   \<and> (request_method request = ''POST'' \<and> url_pathname request = ''/api/analyze-image'' \<longrightarrow>
      fetch getHTML env request = analyzeImage env request corsHeaders)
   \<and> (request_method request = ''POST'' \<and> url_pathname request = ''/api/generate-image'' \<longrightarrow>
      fetch getHTML env request = generateImage env request corsHeaders)
   \<and> (request_method request = ''POST'' \<and> url_pathname request = ''/api/transform-image'' \<longrightarrow>
      fetch getHTML env request = transformImage env request corsHeaders)
   \<and> (request_method request \<noteq> ''OPTIONS''
       \<and> \<not> (request_method request = ''GET'' \<and> url_pathname request = ''/'')
       \<and> \<not> (request_method request = ''POST''
             \<and> url_pathname request \<in> {''/api/analyze-image'', ''/api/generate-image'',
                                         ''/api/transform-image''}) \<longrightarrow>
      fetch getHTML env request
        = (\<lparr>status = 200, headers = corsHeaders @ [(''Content-Type'', ''application/json'')],
            body = JsonBody capabilities\<rparr>, []))"
proof (intro conjI impI)
  assume "request_method request = ''OPTIONS''"
  then show "fetch getHTML env request = (\<lparr>status = 200, headers = corsHeaders, body = NullBody\<rparr>, [])"
    by (simp add: fetch_def Response_def)
next
  assume "request_method request = ''GET'' \<and> url_pathname request = ''/''"
  then show "fetch getHTML env request
        = (\<lparr>status = 200, headers = corsHeaders @ [(''Content-Type'', ''text/html'')],
            body = TextBody getHTML\<rparr>, [])"
    by (simp add: fetch_def Response_def spread_cors)
next
  assume "request_method request = ''POST'' \<and> url_pathname request = ''/api/analyze-image''"
  then show "fetch getHTML env request = analyzeImage env request corsHeaders"
    by (simp add: fetch_def)
next
  assume "request_method request = ''POST'' \<and> url_pathname request = ''/api/generate-image''"
  then show "fetch getHTML env request = generateImage env request corsHeaders"
    by (simp add: fetch_def)
next
  assume "request_method request = ''POST'' \<and> url_pathname request = ''/api/transform-image''"
  then show "fetch getHTML env request = transformImage env request corsHeaders"
    by (simp add: fetch_def)
next
  assume a: "request_method request \<noteq> ''OPTIONS''
       \<and> \<not> (request_method request = ''GET'' \<and> url_pathname request = ''/'')
       \<and> \<not> (request_method request = ''POST''
             \<and> url_pathname request \<in> {''/api/analyze-image'', ''/api/generate-image'',
                                         ''/api/transform-image''})"
  then have 1: "request_method request \<noteq> ''OPTIONS''"
    and 2: "\<not> (url_pathname request = ''/'' \<and> request_method request = ''GET'')"
    and 3: "\<not> (url_pathname request = ''/api/analyze-image'' \<and> request_method request = ''POST'')"
    and 4: "\<not> (url_pathname request = ''/api/generate-image'' \<and> request_method request = ''POST'')"
    and 5: "\<not> (url_pathname request = ''/api/transform-image'' \<and> request_method request = ''POST'')"
    by blast+
  show "fetch getHTML env request
        = (\<lparr>status = 200, headers = corsHeaders @ [(''Content-Type'', ''application/json'')],
            body = JsonBody capabilities\<rparr>, [])"
    unfolding fetch_def if_not_P [OF 1] if_not_P [OF 2] if_not_P [OF 3] if_not_P [OF 4] if_not_P [OF 5]
    by (simp add: Response_def spread_cors)
qed

text \<open>Witness of C7: one request for each of the six cases.\<close>

theorem router_dispatch_witness:
  "fetch ''<html>'' example_env (empty_request ''OPTIONS'' ''/api/analyze-image'')
     = (\<lparr>status = 200, headers = corsHeaders, body = NullBody\<rparr>, [])
   \<and> fetch ''<html>'' example_env (empty_request ''GET'' ''/'')
     = (\<lparr>status = 200, headers = corsHeaders @ [(''Content-Type'', ''text/html'')],
         body = TextBody ''<html>''\<rparr>, [])
   \<and> fetch ''<html>'' example_env analyze_sample
     = analyzeImage example_env analyze_sample corsHeaders
   \<and> fetch ''<html>'' example_env (generate_sample ''cartoon'')
     = generateImage example_env (generate_sample ''cartoon'') corsHeaders
   \<and> fetch ''<html>'' example_env transform_sample
     = transformImage example_env transform_sample corsHeaders
   \<and> fetch ''<html>'' example_env (empty_request ''GET'' ''/api/analyze-image'')
     = (\<lparr>status = 200, headers = corsHeaders @ [(''Content-Type'', ''application/json'')],
         body = JsonBody capabilities\<rparr>, [])"
proof -
  have 1: "request_method (empty_request ''OPTIONS'' ''/api/analyze-image'') = ''OPTIONS''"
    by (simp add: empty_request_def)
  have 2: "request_method (empty_request ''GET'' ''/'') = ''GET''
           \<and> url_pathname (empty_request ''GET'' ''/'') = ''/''"
    by (simp add: empty_request_def)
  have 3: "request_method analyze_sample = ''POST''
           \<and> url_pathname analyze_sample = ''/api/analyze-image''"
    by (simp add: sample_defs)
  have 4: "request_method (generate_sample ''cartoon'') = ''POST''
           \<and> url_pathname (generate_sample ''cartoon'') = ''/api/generate-image''"
    by (simp add: sample_defs)
  have 5: "request_method transform_sample = ''POST''
           \<and> url_pathname transform_sample = ''/api/transform-image''"
    by (simp add: sample_defs)
  let ?r = "empty_request ''GET'' ''/api/analyze-image''"
  have 6: "request_method ?r \<noteq> ''OPTIONS''
       \<and> \<not> (request_method ?r = ''GET'' \<and> url_pathname ?r = ''/'')
       \<and> \<not> (request_method ?r = ''POST''
             \<and> url_pathname ?r \<in> {''/api/analyze-image'', ''/api/generate-image'',
                                         ''/api/transform-image''})"
    by (simp add: empty_request_def)
  note c = router_dispatch [of _ "''<html>''" example_env]
  note R1 = c [THEN conjunct1, rule_format, OF 1]
  note R2 = c [THEN conjunct2, THEN conjunct1, rule_format, OF 2]
  note R3 = c [THEN conjunct2, THEN conjunct2, THEN conjunct1, rule_format, OF 3]
  note R4 = c [THEN conjunct2, THEN conjunct2, THEN conjunct2, THEN conjunct1, rule_format, OF 4]
  note R5 = c [THEN conjunct2, THEN conjunct2, THEN conjunct2, THEN conjunct2, THEN conjunct1,
      rule_format, OF 5]
  note R6 = c [THEN conjunct2, THEN conjunct2, THEN conjunct2, THEN conjunct2, THEN conjunct2,
      rule_format, OF 6]
  show ?thesis by (intro conjI) (rule R1 R2 R3 R4 R5 R6)+
qed

subsection \<open>CORS headers\<close>

lemma analyzeImage_try_shape:
  "fst (analyzeImage_try env request hdrs) = Inr r \<Longrightarrow> \<exists>d st. r = Response_json d st hdrs"
  by (auto simp add: analyzeImage_try_def fst_bind fst_await fst_ret run_defs Let_def
      split: sum.splits if_splits)

lemma generateImage_try_shape:
  "fst (generateImage_try env request hdrs) = Inr r \<Longrightarrow>
     (\<exists>d st. r = Response_json d st hdrs)
     \<or> (\<exists>b. r = Response (BytesBody b) (spread hdrs ''Content-Type'' ''image/png''))"
  by (auto simp add: generateImage_try_def fst_bind fst_await fst_ret run_defs Let_def
      split: sum.splits if_splits prod.splits)

lemma transformImage_try_shape:
  "fst (transformImage_try env request hdrs) = Inr r \<Longrightarrow>
     (\<exists>d st. r = Response_json d st hdrs)
     \<or> (\<exists>b. r = Response (BytesBody b) (spread hdrs ''Content-Type'' ''image/png''))"
  by (auto simp add: transformImage_try_def fst_bind fst_await fst_ret run_defs Let_def
      split: sum.splits if_splits prod.splits)

lemma analyzeImage_headers:
  "headers (fst (analyzeImage env request corsHeaders)) \<in> handler_headers"
proof (cases "fst (analyzeImage_try env request corsHeaders)")
  case (Inl e)
  then show ?thesis
    by (simp add: analyzeImage_def fst_catch_Inl headers_Response_json_cors handler_headers_def)
next
  case (Inr r)
  from analyzeImage_try_shape [OF Inr] Inr show ?thesis
    by (auto simp add: analyzeImage_def fst_catch_Inr headers_Response_json_cors handler_headers_def)
qed

lemma generateImage_headers:
  "headers (fst (generateImage env request corsHeaders)) \<in> handler_headers"
proof (cases "fst (generateImage_try env request corsHeaders)")
  case (Inl e)
  then show ?thesis
    by (simp add: generateImage_def fst_catch_Inl headers_Response_json_cors handler_headers_def)
next
  case (Inr r)
  from generateImage_try_shape [OF Inr] Inr show ?thesis
    by (auto simp add: generateImage_def fst_catch_Inr headers_Response_json_cors
        handler_headers_def Response_def spread_cors)
qed

lemma transformImage_headers:
  "headers (fst (transformImage env request corsHeaders)) \<in> handler_headers"
proof (cases "fst (transformImage_try env request corsHeaders)")
  case (Inl e)
  then show ?thesis
    by (simp add: transformImage_def fst_catch_Inl headers_Response_json_cors handler_headers_def)
next
  case (Inr r)
  from transformImage_try_shape [OF Inr] Inr show ?thesis
    by (auto simp add: transformImage_def fst_catch_Inr headers_Response_json_cors
        handler_headers_def Response_def spread_cors)
qed

lemma fetch_headers:
  "headers (fst (fetch getHTML env request))
     \<in> {corsHeaders,
        corsHeaders @ [(''Content-Type'', ''text/html'')],
        corsHeaders @ [(''Content-Type'', ''application/json'')],
        corsHeaders @ [(''content-type'', ''application/json'')],
        corsHeaders @ [(''Content-Type'', ''image/png'')]}"
  using analyzeImage_headers [of env request] generateImage_headers [of env request]
    transformImage_headers [of env request]
  by (auto simp add: fetch_def Response_def spread_cors handler_headers_def)

text \<open>
  C8. Every response of the router, whatever the request and whatever the gateway does
  (so success, 400 and 500 alike), has the three CORS headers with their fixed values:
  its headers are the CORS headers followed by the headers of that response.
\<close>

theorem cors_headers_on_every_response:
  "(\<exists>extra. headers (fst (fetch getHTML env request)) = corsHeaders @ extra)
   \<and> map_of (headers (fst (fetch getHTML env request))) ''Access-Control-Allow-Origin'' = Some ''*''
   \<and> map_of (headers (fst (fetch getHTML env request))) ''Access-Control-Allow-Methods''
       = Some ''GET, POST, OPTIONS''
   \<and> map_of (headers (fst (fetch getHTML env request))) ''Access-Control-Allow-Headers''
       = Some ''Content-Type''"
proof -
  from fetch_headers [of getHTML env request]
  obtain extra where e: "headers (fst (fetch getHTML env request)) = corsHeaders @ extra"
    by auto
  show ?thesis unfolding e by (simp add: corsHeaders_def)
qed

subsection \<open>The call to the image model\<close>



end
